theory Spec2Isabelle
  imports Complex_Main "HOL-Library.Char_ord" "HOL-Library.List_Lexorder"
begin

section \<open>Borehole analyzer: unit assignment and narrative generation\<close>

text \<open>
  A shallow embedding of the subsurface-summary part of \<^verbatim>\<open>app.py\<close>:
  \<^verbatim>\<open>classify_soil_group\<close>, \<^verbatim>\<open>assign_geological_units\<close>,
  \<^verbatim>\<open>generate_unit_description\<close>, \<^verbatim>\<open>generate_extent_statement\<close> and
  \<^verbatim>\<open>create_subsurface_summary_table\<close>.

  Conventions of the model.
  \<^item> A text cell is a \<open>string option\<close>; \<open>None\<close> is the missing value (NaN/None) that
    \<^verbatim>\<open>pd.isna\<close>, \<^verbatim>\<open>dropna\<close> and \<^verbatim>\<open>fillna\<close> look for.
  \<^item> Text is ASCII: whitespace and letter case are those of Python on ASCII characters.
    Strings are compared as Python compares them, character code by character code.
  \<^item> Depths are exact rational numbers. Rounding of binary floating point and the
    not-a-number depth are outside the model.
\<close>

subsection \<open>Python string primitives\<close>

text \<open>\<^verbatim>\<open>str.isspace\<close> on one ASCII character: codes 9 to 13 and 28 to 32.\<close>

definition isspace :: "char \<Rightarrow> bool" where
  "isspace c = (let n = (of_char c :: nat) in (9 \<le> n \<and> n \<le> 13) \<or> (28 \<le> n \<and> n \<le> 32))"

text \<open>\<^verbatim>\<open>s.strip()\<close>: leading whitespace is dropped, then trailing whitespace.\<close>

definition py_strip :: "string \<Rightarrow> string" where
  "py_strip s = rev (dropWhile isspace (rev (dropWhile isspace s)))"

subsection \<open>Classification grouper\<close>

text \<open>
  \<^verbatim>\<open>classify_soil_group(legend)\<close>. The \<^verbatim>\<open>if/elif\<close> chain is kept in the order of
  the source.
\<close>

definition classify_soil_group :: "string option \<Rightarrow> string" where
  "classify_soil_group legend =
     (case legend of
        None \<Rightarrow> ''Unknown''
      | Some raw \<Rightarrow>
          (let legend = py_strip raw in
           if legend \<in> set [''CL'', ''CL-CI''] then ''CL_Group''
           else if legend \<in> set [''CI'', ''CI-CH''] then ''CI_Group''
           else if legend = ''CH'' then ''CH_Group''
           else if legend \<in> set [''GW'', ''GP'', ''GM'', ''GC''] then ''Gravel_Group''
           else if legend \<in> set [''SW'', ''SP'', ''SM'', ''SC''] then ''Sand_Group''
           else if legend \<in> set [''ML'', ''MH''] then ''Silt_Group''
           else legend))"

text \<open>
  The lookup table as the specification documents it (section 4.1): each line gives a set
  of codes and the group label they collapse to.
\<close>

definition documented_groups :: "(string list \<times> string) list" where
  "documented_groups =
     [([''CL'', ''CL-CI''], ''CL_Group''),
      ([''CI'', ''CI-CH''], ''CI_Group''),
      ([''CH''], ''CH_Group''),
      ([''GW'', ''GP'', ''GM'', ''GC''], ''Gravel_Group''),
      ([''SW'', ''SP'', ''SM'', ''SC''], ''Sand_Group''),
      ([''ML'', ''MH''], ''Silt_Group'')]"

definition documented_codes :: "string list" where
  "documented_codes = concat (map fst documented_groups)"

subsection \<open>Data model\<close>

text \<open>
  One row of the geology table. \<^verbatim>\<open>POINT_ID\<close>, \<^verbatim>\<open>TOP\<close>, \<^verbatim>\<open>BASE\<close>,
  \<^verbatim>\<open>Legend\<close>, \<^verbatim>\<open>Origin1\<close> and \<^verbatim>\<open>Color\<close> are columns the loader requires; the other
  six are the optional columns that \<^verbatim>\<open>generate_unit_description\<close> looks for. The required
  columns that the summary never reads (\<^verbatim>\<open>PROJ_ID\<close>, \<^verbatim>\<open>Description\<close>,
  \<^verbatim>\<open>Classification\<close>, \<^verbatim>\<open>THICKNESS\<close>) are left out.
\<close>

record layer =
  POINT_ID :: string
  TOP :: rat
  BASE :: rat
  Legend :: "string option"
  Origin1 :: "string option"
  Color :: "string option"
  PrimaryName :: "string option"
  PrimaryNameQualifier :: "string option"
  PlasticityMin :: "string option"
  PlasticityJoiner :: "string option"
  PlasticityMax :: "string option"
  Remarks :: "string option"

text \<open>The columns that \<^verbatim>\<open>assign_geological_units\<close> adds to every row.\<close>

record unit_layer = layer +
  AvgDepth :: rat
  ClassGroup :: string
  GroupKey :: string
  Unit :: "string option"

text \<open>
  A data frame: its rows, and the names of the optional columns it has
  (\<^verbatim>\<open>'PrimaryName' in unit_df.columns\<close>). The cells of an optional column that is not
  listed are never read.
\<close>

record 'r dataframe =
  columns :: "string list"
  rows :: "'r list"

subsection \<open>Series primitives of pandas\<close>

text \<open>\<^verbatim>\<open>Series.dropna()\<close>: the present values, in row order.\<close>

fun dropna :: "'a option list \<Rightarrow> 'a list" where
  "dropna [] = []"
| "dropna (None # xs) = dropna xs"
| "dropna (Some x # xs) = x # dropna xs"

text \<open>\<^verbatim>\<open>Series.unique()\<close>: the distinct values in order of first appearance.\<close>

fun unique :: "'a list \<Rightarrow> 'a list" where
  "unique [] = []"
| "unique (x # xs) = x # unique (filter (\<lambda>y. y \<noteq> x) xs)"

text \<open>\<^verbatim>\<open>Series.fillna(d)\<close> on one cell.\<close>

definition fillna :: "'a \<Rightarrow> 'a option \<Rightarrow> 'a" where
  "fillna d v = (case v of None \<Rightarrow> d | Some x \<Rightarrow> x)"

text \<open>
  \<^verbatim>\<open>df.groupby(key)[value].mean()\<close> on the list of (key, value) cells: one entry for
  each distinct key, the keys in ascending order (\<^verbatim>\<open>groupby\<close> sorts them), each with
  the arithmetic mean of its values. Every key listed has at least one value.
\<close>

definition mean :: "rat list \<Rightarrow> rat" where
  "mean vs = sum_list vs / of_nat (length vs)"

definition groupby_mean :: "(string \<times> rat) list \<Rightarrow> (string \<times> rat) list" where
  "groupby_mean kvs =
     map (\<lambda>k. (k, mean (map snd (filter (\<lambda>kv. fst kv = k) kvs))))
         (sort (remdups (map fst kvs)))"

text \<open>
  \<^verbatim>\<open>Series.sort_values()\<close>: ascending by value. Entries with equal values are kept in
  the order \<^verbatim>\<open>groupby\<close> listed them (a stable sort, here insertion sort).
\<close>

definition sort_values :: "(string \<times> rat) list \<Rightarrow> (string \<times> rat) list" where
  "sort_values kvs = sort_key snd kvs"

subsection \<open>Unit assigner\<close>

text \<open>Python's \<^verbatim>\<open>str\<close> of a non-negative integer: its decimal digits.\<close>

fun str_nat :: "nat \<Rightarrow> string" where
  "str_nat n =
     (if n < 10 then [''0123456789'' ! n]
      else str_nat (n div 10) @ [''0123456789'' ! (n mod 10)])"

declare str_nat.simps [simp del]

text \<open>\<^verbatim>\<open>group_key.split('_')[0]\<close>: the text before the first underscore.\<close>

definition origin_segment :: "string \<Rightarrow> string" where
  "origin_segment group_key = takeWhile (\<lambda>c. c \<noteq> CHR ''_'') group_key"

text \<open>The \<^verbatim>\<open>if/elif\<close> chain that picks the prefix.\<close>

definition origin_prefix :: "string \<Rightarrow> string" where
  "origin_prefix origin =
     (if origin = ''Fill'' then ''F''
      else if origin = ''Residual'' then ''R''
      else if origin = ''Alluvium'' then ''AL''
      else if origin = ''Colluvium'' then ''CO''
      else ''U'')"

text \<open>The two dictionaries that the loop over the sorted group keys updates.\<close>

record assign_state =
  origin_counters :: "string \<rightharpoonup> nat"
  unit_assignments :: "string \<rightharpoonup> string"

text \<open>
  One iteration of the loop. A counter that is not yet in \<^verbatim>\<open>origin_counters\<close> starts at
  0; the counter is incremented and then used.
\<close>

definition assign_step :: "assign_state \<Rightarrow> string \<Rightarrow> assign_state" where
  "assign_step st group_key =
     (let origin = origin_segment group_key;
          prefix = origin_prefix origin;
          counter = (case origin_counters st origin of None \<Rightarrow> 0 | Some c \<Rightarrow> c) + 1;
          unit_code = prefix @ str_nat counter
      in \<lparr>origin_counters = (origin_counters st)(origin \<mapsto> counter),
          unit_assignments = (unit_assignments st)(group_key \<mapsto> unit_code)\<rparr>)"

definition assign_loop :: "string list \<Rightarrow> assign_state" where
  "assign_loop keys =
     foldl assign_step \<lparr>origin_counters = Map.empty, unit_assignments = Map.empty\<rparr> keys"

text \<open>The columns \<^verbatim>\<open>AvgDepth\<close>, \<^verbatim>\<open>ClassGroup\<close> and \<^verbatim>\<open>GroupKey\<close> of one row.\<close>

definition avg_depth :: "'a layer_scheme \<Rightarrow> rat" where
  "avg_depth l = (TOP l + BASE l) / 2"

definition class_group :: "'a layer_scheme \<Rightarrow> string" where
  "class_group l = classify_soil_group (Legend l)"

definition group_key_of :: "'a layer_scheme \<Rightarrow> string" where
  "group_key_of l = fillna ''Unknown'' (Origin1 l) @ ''_'' @ class_group l"

text \<open>
  \<^verbatim>\<open>group_depths\<close>: the mean \<^verbatim>\<open>AvgDepth\<close> of every \<^verbatim>\<open>GroupKey\<close>, sorted by
  value; its index is the order in which the loop visits the keys.
\<close>

definition group_depths :: "layer list \<Rightarrow> (string \<times> rat) list" where
  "group_depths ls = sort_values (groupby_mean (map (\<lambda>l. (group_key_of l, avg_depth l)) ls))"

text \<open>
  \<^verbatim>\<open>assign_geological_units(df)\<close>: the frame with the four added columns. The
  \<^verbatim>\<open>Unit\<close> cell is the look-up of the row's key in \<^verbatim>\<open>unit_assignments\<close>
  (\<^verbatim>\<open>Series.map\<close> leaves a key that is not in the dictionary missing).
\<close>

definition assign_geological_units :: "layer dataframe \<Rightarrow> unit_layer dataframe" where
  "assign_geological_units df =
     (let unit_assignments = unit_assignments (assign_loop (map fst (group_depths (rows df))))
      in \<lparr>columns = columns df,
          rows = map (\<lambda>l. layer.extend l
                       (unit_layer.fields (avg_depth l) (class_group l) (group_key_of l)
                          (unit_assignments (group_key_of l))))
                     (rows df)\<rparr>)"

subsection \<open>More Python string primitives\<close>

text \<open>\<^verbatim>\<open>sep.join(xs)\<close>.\<close>

fun join :: "string \<Rightarrow> string list \<Rightarrow> string" where
  "join sep [] = []"
| "join sep [x] = x"
| "join sep (x # y # ys) = x @ sep @ join sep (y # ys)"

text \<open>
  \<^verbatim>\<open>s.split()\<close>: the maximal runs of non-whitespace characters. The first argument
  holds the characters of the current run, last one first.
\<close>

fun split_run :: "string \<Rightarrow> string \<Rightarrow> string list" where
  "split_run w [] = (if w = [] then [] else [rev w])"
| "split_run w (c # cs) =
     (if isspace c then (if w = [] then split_run [] cs else rev w # split_run [] cs)
      else split_run (c # w) cs)"

definition py_split :: "string \<Rightarrow> string list" where
  "py_split s = split_run [] s"

text \<open>\<^verbatim>\<open>s.upper()\<close> and \<^verbatim>\<open>s.lower()\<close> on ASCII text.\<close>

definition py_upper :: "string \<Rightarrow> string" where
  "py_upper s =
     map (\<lambda>c. case map_of (zip ''abcdefghijklmnopqrstuvwxyz'' ''ABCDEFGHIJKLMNOPQRSTUVWXYZ'') c of
                None \<Rightarrow> c | Some u \<Rightarrow> u) s"

definition py_lower :: "string \<Rightarrow> string" where
  "py_lower s =
     map (\<lambda>c. case map_of (zip ''ABCDEFGHIJKLMNOPQRSTUVWXYZ'' ''abcdefghijklmnopqrstuvwxyz'') c of
                None \<Rightarrow> c | Some u \<Rightarrow> u) s"

subsection \<open>Description synthesizer\<close>

text \<open>
  \<^verbatim>\<open>Series.mode()\<close>: the present values that occur most often, in ascending order
  (pandas sorts the modes); empty when no value is present.
\<close>

definition mode_values :: "string option list \<Rightarrow> string list" where
  "mode_values cells =
     (let vals = dropna cells in
      sort (filter (\<lambda>v. list_all (\<lambda>w. count_list vals w \<le> count_list vals v) vals)
                   (unique vals)))"

text \<open>\<^verbatim>\<open>s.mode()[0] if not s.mode().empty else fallback\<close>.\<close>

definition mode_or :: "string \<Rightarrow> string option list \<Rightarrow> string" where
  "mode_or fallback cells = (case mode_values cells of [] \<Rightarrow> fallback | m # _ \<Rightarrow> m)"

text \<open>The local variable \<^verbatim>\<open>origin\<close> of \<^verbatim>\<open>generate_unit_description\<close>.\<close>

definition unit_origin :: "'a layer_scheme dataframe \<Rightarrow> string" where
  "unit_origin unit_df = mode_or ''Unknown'' (map Origin1 (rows unit_df))"

text \<open>The local variable \<^verbatim>\<open>primary_material\<close>.\<close>

definition unit_primary_material :: "'a layer_scheme dataframe \<Rightarrow> string" where
  "unit_primary_material unit_df =
     (if ''PrimaryName'' \<in> set (columns unit_df)
      then py_upper (mode_or ''SOIL'' (map PrimaryName (rows unit_df)))
      else ''SOIL'')"

text \<open>The local variable \<^verbatim>\<open>class_str\<close>.\<close>

definition class_str :: "'a layer_scheme dataframe \<Rightarrow> string" where
  "class_str unit_df =
     (let classifications = sort (unique (dropna (map Legend (rows unit_df)))) in
      if length classifications = 1 then ''('' @ hd classifications @ '')''
      else if length classifications > 1 then ''('' @ join '' to '' classifications @ '')''
      else [])"

text \<open>
  The list \<^verbatim>\<open>plasticity_parts\<close> after each of the three \<^verbatim>\<open>if\<close> blocks, and the
  local variable \<^verbatim>\<open>plasticity_str\<close>.
\<close>

definition plasticity_min_parts :: "'a layer_scheme dataframe \<Rightarrow> string list" where
  "plasticity_min_parts unit_df =
     (if ''PlasticityMin'' \<in> set (columns unit_df)
      then (case unique (dropna (map PlasticityMin (rows unit_df))) of
              [] \<Rightarrow> [] | v # _ \<Rightarrow> [v])
      else [])"

definition plasticity_joiner_parts :: "'a layer_scheme dataframe \<Rightarrow> string list" where
  "plasticity_joiner_parts unit_df =
     plasticity_min_parts unit_df @
     (if ''PlasticityJoiner'' \<in> set (columns unit_df)
      then (case unique (dropna (map PlasticityJoiner (rows unit_df))) of
              [] \<Rightarrow> [] | j # _ \<Rightarrow> if j = ''to'' then [''to''] else [])
      else [])"

definition plasticity_parts :: "'a layer_scheme dataframe \<Rightarrow> string list" where
  "plasticity_parts unit_df =
     plasticity_joiner_parts unit_df @
     (if ''PlasticityMax'' \<in> set (columns unit_df)
      then (case unique (dropna (map PlasticityMax (rows unit_df))) of
              [] \<Rightarrow> []
            | m # _ \<Rightarrow> if ''to'' \<in> set (plasticity_joiner_parts unit_df) then [m] else [])
      else [])"

definition plasticity_str :: "'a layer_scheme dataframe \<Rightarrow> string" where
  "plasticity_str unit_df =
     (if plasticity_parts unit_df \<noteq> []
      then join '' '' (plasticity_parts unit_df) @ '' plasticity''
      else [])"

text \<open>The local variable \<^verbatim>\<open>color_str\<close>.\<close>

definition color_str :: "'a layer_scheme dataframe \<Rightarrow> string" where
  "color_str unit_df =
     (let colors = unique (dropna (map Color (rows unit_df))) in
      if length colors = 1 then hd colors
      else if length colors > 1 then hd colors @ '' to '' @ last colors
      else [])"

text \<open>
  The text that follows \<^verbatim>\<open>origin.upper()\<close> in the first part: a space and the three
  characters that the source file has there (seven bytes of UTF-8).
\<close>

definition dash_suffix :: string where
  "dash_suffix = [CHR '' '', CHR 0xE2, CHR 0x80, CHR 0x9A, CHR 0xC3, CHR 0x84, CHR 0xC3, CHR 0xAC]"

text \<open>The first non-missing cell of an optional column, when the column exists.\<close>

definition first_present ::
  "string \<Rightarrow> ('a layer_scheme \<Rightarrow> string option) \<Rightarrow> 'a layer_scheme dataframe \<Rightarrow> string list" where
  "first_present name col unit_df =
     (if name \<in> set (columns unit_df)
      then (case unique (dropna (map col (rows unit_df))) of [] \<Rightarrow> [] | v # _ \<Rightarrow> [v])
      else [])"

text \<open>\<^verbatim>\<open>generate_unit_description(unit_df)\<close>.\<close>

definition generate_unit_description :: "'a layer_scheme dataframe \<Rightarrow> string" where
  "generate_unit_description unit_df =
     (if rows unit_df = [] then []
      else
        let parts0 = [py_upper (unit_origin unit_df) @ dash_suffix, unit_primary_material unit_df];
            parts1 = parts0 @ (if class_str unit_df \<noteq> [] then [class_str unit_df @ '':''] else []);
            desc_parts =
              (if plasticity_str unit_df \<noteq> [] then [plasticity_str unit_df] else []) @
              (if color_str unit_df \<noteq> [] then [color_str unit_df] else []) @
              map py_lower (first_present ''PrimaryNameQualifier'' PrimaryNameQualifier unit_df);
            parts2 = parts1 @ (if desc_parts \<noteq> [] then [join '', '' desc_parts] else []);
            parts3 = parts2 @ first_present ''Remarks'' Remarks unit_df;
            description = py_strip (join '' '' parts3)
        in join '' '' (py_split description))"

subsection \<open>Extent synthesizer\<close>

text \<open>
  \<^verbatim>\<open>Series.min()\<close>, \<^verbatim>\<open>Series.max()\<close> and \<^verbatim>\<open>Series.mean()\<close>. On a series without
  values pandas returns not-a-number, which is \<open>None\<close> here; a comparison with it is
  false and its difference with anything is not-a-number again.
\<close>

fun series_min :: "rat list \<Rightarrow> rat option" where
  "series_min [] = None"
| "series_min (x # xs) = Some (fold min xs x)"

fun series_max :: "rat list \<Rightarrow> rat option" where
  "series_max [] = None"
| "series_max (x # xs) = Some (fold max xs x)"

fun series_mean :: "rat list \<Rightarrow> rat option" where
  "series_mean [] = None"
| "series_mean (x # xs) = Some (mean (x # xs))"

fun float_sub :: "rat option \<Rightarrow> rat option \<Rightarrow> rat option" where
  "float_sub (Some a) (Some b) = Some (a - b)"
| "float_sub _ _ = None"

fun float_lt :: "rat option \<Rightarrow> rat option \<Rightarrow> bool" where
  "float_lt (Some a) (Some b) = (a < b)"
| "float_lt _ _ = False"

text \<open>
  The format \<^verbatim>\<open>{x:.1f}\<close>: one digit after the point, the exact value rounded to the
  nearest tenth and to the even one at a tie; \<^verbatim>\<open>nan\<close> for not-a-number.
\<close>

definition round_half_even :: "rat \<Rightarrow> int" where
  "round_half_even q =
     (let f = \<lfloor>q\<rfloor>; d = q - of_int f in
      if d < 1 / 2 then f else if 1 / 2 < d then f + 1 else if even f then f else f + 1)"

definition fmt1 :: "rat option \<Rightarrow> string" where
  "fmt1 x =
     (case x of
        None \<Rightarrow> ''nan''
      | Some q \<Rightarrow>
          (let tenths = nat (round_half_even (\<bar>q\<bar> * 10)) in
           (if q < 0 then ''-'' else []) @ str_nat (tenths div 10) @ ''.'' @ str_nat (tenths mod 10)))"

text \<open>One entry of \<^verbatim>\<open>bh_summary\<close>.\<close>

record bh_entry =
  BH :: string
  bh_TOP :: "rat option"
  bh_BASE :: "rat option"

text \<open>The list \<^verbatim>\<open>bh_summary\<close>: one entry for each borehole, in ascending order of its id.\<close>

definition bh_summary :: "'a layer_scheme list \<Rightarrow> bh_entry list" where
  "bh_summary ls =
     map (\<lambda>bh. let bh_data = filter (\<lambda>l. POINT_ID l = bh) ls in
                \<lparr>BH = bh, bh_TOP = series_min (map TOP bh_data), bh_BASE = series_max (map BASE bh_data)\<rparr>)
         (sort (unique (map POINT_ID ls)))"

text \<open>The local variables \<^verbatim>\<open>top_var\<close> and \<^verbatim>\<open>base_var\<close>.\<close>

definition top_var :: "'a layer_scheme list \<Rightarrow> rat option" where
  "top_var ls =
     (let tops = dropna (map bh_TOP (bh_summary ls)) in float_sub (series_max tops) (series_min tops))"

definition base_var :: "'a layer_scheme list \<Rightarrow> rat option" where
  "base_var ls =
     (let bases = dropna (map bh_BASE (bh_summary ls)) in float_sub (series_max bases) (series_min bases))"

text \<open>\<^verbatim>\<open>generate_extent_statement(unit_df)\<close>.\<close>

definition generate_extent_statement :: "'a layer_scheme dataframe \<Rightarrow> string" where
  "generate_extent_statement unit_df =
     (if rows unit_df = [] then []
      else
        let summary = bh_summary (rows unit_df);
            tops = dropna (map bh_TOP summary);
            bases = dropna (map bh_BASE summary);
            bh_list = join '', '' (map BH summary)
        in if float_lt (top_var (rows unit_df)) (Some 0.2) \<and> float_lt (base_var (rows unit_df)) (Some 0.3)
           then
             (let avg_top = series_mean tops; avg_base = series_mean bases in
              if float_lt avg_top (Some 0.1)
              then ''Encountered from surface to approximately '' @ fmt1 avg_base @ '' mbgl in '' @ bh_list @ ''.''
              else ''Encountered from approximately '' @ fmt1 avg_top @ '' to '' @ fmt1 avg_base
                     @ '' mbgl in '' @ bh_list @ ''.'')
           else
             (let depth_desc =
                    (if float_lt (series_min tops) (Some 0.1)
                     then ''from surface to '' @ fmt1 (series_min bases) @ ''-'' @ fmt1 (series_max bases) @ '' mbgl''
                     else ''from '' @ fmt1 (series_min tops) @ '' to '' @ fmt1 (series_max bases) @ '' mbgl'')
              in ''Encountered '' @ depth_desc @ '' in '' @ bh_list @ ''. Depth varies across boreholes.''))"

subsection \<open>Summary table builder\<close>

text \<open>
  \<^verbatim>\<open>df_with_units[df_with_units['Unit'] == x]\<close>: the rows whose unit code equals
  \<open>x\<close>. A missing code equals nothing.
\<close>

definition unit_data :: "unit_layer dataframe \<Rightarrow> string option \<Rightarrow> unit_layer dataframe" where
  "unit_data df_with_units x =
     df_with_units\<lparr>rows := filter (\<lambda>l. x \<noteq> None \<and> Unit l = x) (rows df_with_units)\<rparr>"

text \<open>The sort key of a unit code: the least \<^verbatim>\<open>AvgDepth\<close> of its rows.\<close>

definition unit_min_depth :: "unit_layer dataframe \<Rightarrow> string option \<Rightarrow> rat option" where
  "unit_min_depth df_with_units x = series_min (map AvgDepth (rows (unit_data df_with_units x)))"

text \<open>
  \<^verbatim>\<open>sorted(xs, key=f)\<close> with numbers as keys: ascending by \<^verbatim>\<open><\<close> on the keys, the
  elements with equal keys in their order in \<open>xs\<close>. Each element is inserted, in turn,
  behind the elements that are not greater.
\<close>

fun insert_by_key :: "('a \<Rightarrow> rat option) \<Rightarrow> 'a \<Rightarrow> 'a list \<Rightarrow> 'a list" where
  "insert_by_key key x [] = [x]"
| "insert_by_key key x (y # ys) =
     (if float_lt (key x) (key y) then x # y # ys else y # insert_by_key key x ys)"

definition py_sorted :: "('a \<Rightarrow> rat option) \<Rightarrow> 'a list \<Rightarrow> 'a list" where
  "py_sorted key xs = foldl (\<lambda>acc x. insert_by_key key x acc) [] xs"

text \<open>One row of the summary table: the unit code and the combined text column.\<close>

record summary_row =
  row_Unit :: "string option"
  row_Text :: string

text \<open>\<^verbatim>\<open>create_subsurface_summary_table(df)\<close>.\<close>

definition create_subsurface_summary_table :: "layer dataframe \<Rightarrow> summary_row list" where
  "create_subsurface_summary_table df =
     (let df_with_units = assign_geological_units df in
      map (\<lambda>unit_code.
             let unit_df = unit_data df_with_units unit_code;
                 description = generate_unit_description unit_df;
                 extent = generate_extent_statement unit_df
             in \<lparr>row_Unit = unit_code, row_Text = description @ [CHR 0x0A, CHR 0x0A] @ extent\<rparr>)
          (py_sorted (unit_min_depth df_with_units) (unique (map Unit (rows df_with_units)))))"

section \<open>Notions used to state the properties\<close>

text \<open>The decimal digits, and the five prefixes a unit code can start with.\<close>

definition digit_chars :: "char list" where
  "digit_chars = ''0123456789''"

definition unit_prefixes :: "string list" where
  "unit_prefixes = [''F'', ''R'', ''AL'', ''CO'', ''U'']"

text \<open>
  The sequence number a key has in a list of keys: one more than the number of keys in
  front of it that have the same origin segment.
\<close>

definition rank_in :: "string list \<Rightarrow> string \<Rightarrow> nat" where
  "rank_in keys k =
     Suc (length (filter (\<lambda>k'. origin_segment k' = origin_segment k)
                         (takeWhile (\<lambda>k'. k' \<noteq> k) keys)))"



text \<open>
  The prefix table as the specification documents it (section 3): four named origins,
  and \<open>U\<close> for anything else.
\<close>

definition documented_prefix :: "string \<Rightarrow> string" where
  "documented_prefix origin =
     (case map_of [(''Fill'', ''F''), (''Residual'', ''R''), (''Alluvium'', ''AL''), (''Colluvium'', ''CO'')]
             origin of
        Some p \<Rightarrow> p
      | None \<Rightarrow> ''U'')"

text \<open>
  A row for the examples: borehole, top, base, classification code and origin; every
  other text cell is missing.
\<close>

definition example_layer :: "string \<Rightarrow> rat \<Rightarrow> rat \<Rightarrow> string option \<Rightarrow> string option \<Rightarrow> layer" where
  "example_layer bh t b code origin =
     \<lparr>POINT_ID = bh, TOP = t, BASE = b, Legend = code, Origin1 = origin, Color = None,
      PrimaryName = None, PrimaryNameQualifier = None, PlasticityMin = None,
      PlasticityJoiner = None, PlasticityMax = None, Remarks = None\<rparr>"

text \<open>Two fill layers at the same depth, the sand discovered before the clay.\<close>

definition two_fill_layers :: "layer dataframe" where
  "two_fill_layers =
     \<lparr>columns = [],
      rows = [example_layer ''BH01'' 0 1 (Some ''SM'') (Some ''Fill''),
              example_layer ''BH01'' 0 1 (Some ''CH'') (Some ''Fill'')]\<rparr>"

text \<open>Two clay layers of two origins that have no prefix of their own.\<close>

definition two_other_origins :: "layer dataframe" where
  "two_other_origins =
     \<lparr>columns = [],
      rows = [example_layer ''BH01'' 0 1 (Some ''CH'') (Some ''Marine''),
              example_layer ''BH01'' 2 3 (Some ''CH'') (Some ''Estuarine'')]\<rparr>"

text \<open>The values of a list that occur at least as often as every other value.\<close>

definition most_frequent :: "string list \<Rightarrow> string set" where
  "most_frequent vals = {v \<in> set vals. \<forall>w\<in>set vals. count_list vals w \<le> count_list vals v}"

text \<open>
  Two rows of one unit whose origins and material names tie; the greater value comes
  first in both columns.
\<close>

definition tied_modes :: "layer dataframe" where
  "tied_modes =
     \<lparr>columns = [''PrimaryName''],
      rows = [(example_layer ''BH01'' 0 1 (Some ''CH'') (Some ''Residual''))\<lparr>PrimaryName := Some ''Sand''\<rparr>,
              (example_layer ''BH02'' 0 1 (Some ''CH'') (Some ''Fill''))\<lparr>PrimaryName := Some ''Clay''\<rparr>]\<rparr>"

text \<open>One row without origin, in a frame without the material column.\<close>

definition no_origin :: "layer dataframe" where
  "no_origin = \<lparr>columns = [], rows = [example_layer ''BH01'' 0 1 (Some ''CH'') None]\<rparr>"













section \<open>Properties\<close>

subsection \<open>Stripping\<close>

lemma dropWhile_fixed:
  "(xs \<noteq> [] \<Longrightarrow> \<not> P (hd xs)) \<Longrightarrow> dropWhile P xs = xs"
  by (cases xs) auto

lemma dropWhile_head:
  "dropWhile P xs \<noteq> [] \<Longrightarrow> \<not> P (hd (dropWhile P xs))"
  by (simp add: hd_dropWhile)

lemma rev_dropWhile_rev_head:
  assumes "xs \<noteq> [] \<Longrightarrow> \<not> P (hd xs)"
  shows "rev (dropWhile P (rev xs)) \<noteq> [] \<Longrightarrow> \<not> P (hd (rev (dropWhile P (rev xs))))"
proof (cases xs)
  case Nil
  then show "rev (dropWhile P (rev xs)) \<noteq> [] \<Longrightarrow> ?thesis" by simp
next
  case (Cons x ys)
  with assms have nx: "\<not> P x" by simp
  have "dropWhile P (rev ys @ [x]) = (if \<forall>y\<in>set (rev ys). P y then [x] else dropWhile P (rev ys) @ [x])"
    using nx by (simp add: dropWhile_append)
  then have "hd (rev (dropWhile P (rev xs))) = x"
    using Cons by (simp split: if_splits)
  with nx show ?thesis by simp
qed

lemma py_strip_idem: "py_strip (py_strip s) = py_strip s"
proof -
  let ?a = "dropWhile isspace s"
  let ?b = "rev (dropWhile isspace (rev ?a))"
  have ha: "?a \<noteq> [] \<Longrightarrow> \<not> isspace (hd ?a)"
    by (rule dropWhile_head)
  have hb: "?b \<noteq> [] \<Longrightarrow> \<not> isspace (hd ?b)"
    using rev_dropWhile_rev_head [of ?a isspace] ha by blast
  have "dropWhile isspace ?b = ?b"
    by (rule dropWhile_fixed) (rule hb)
  then show ?thesis
    by (simp add: py_strip_def)
qed

subsection \<open>Classification grouper\<close>

lemma classify_label_fixed:
  "g \<in> set (''Unknown'' # map snd documented_groups) \<Longrightarrow> classify_soil_group (Some g) = g"
  by (auto simp: documented_groups_def classify_soil_group_def py_strip_def isspace_def)

lemma classify_cases:
  "classify_soil_group (Some s) = py_strip s \<or>
   classify_soil_group (Some s) \<in> set (map snd documented_groups)"
  by (simp add: classify_soil_group_def documented_groups_def Let_def)

text \<open>
  Claim C3. \<^verbatim>\<open>classify_soil_group\<close> always returns a value: \<open>Unknown\<close> for a missing
  code; for a code that, once trimmed, is in one of the documented code sets, the label of
  that set; and for every other code the trimmed code itself.
\<close>

theorem classify_soil_group_table:
  "classify_soil_group None = ''Unknown'' \<and>
   (\<forall>s codes g. (codes, g) \<in> set documented_groups \<and> py_strip s \<in> set codes
        \<longrightarrow> classify_soil_group (Some s) = g) \<and>
   (\<forall>s. py_strip s \<notin> set documented_codes \<longrightarrow> classify_soil_group (Some s) = py_strip s)"
proof (intro conjI allI impI)
  show "classify_soil_group None = ''Unknown''"
    by (simp add: classify_soil_group_def)
next
  fix s codes g
  assume "(codes, g) \<in> set documented_groups \<and> py_strip s \<in> set codes"
  then show "classify_soil_group (Some s) = g"
    by (auto simp: documented_groups_def classify_soil_group_def)
next
  fix s
  assume "py_strip s \<notin> set documented_codes"
  then show "classify_soil_group (Some s) = py_strip s"
    by (simp add: documented_codes_def documented_groups_def classify_soil_group_def)
qed

theorem classify_soil_group_table_witness:
  "([''CI'', ''CI-CH''], ''CI_Group'') \<in> set documented_groups \<and>
   py_strip '' CI-CH  '' \<in> set [''CI'', ''CI-CH''] \<and>
   classify_soil_group (Some '' CI-CH  '') = ''CI_Group'' \<and>
   py_strip ''  OL '' \<notin> set documented_codes \<and>
   classify_soil_group (Some ''  OL '') = ''OL''"
proof -
  have strip1: "py_strip '' CI-CH  '' = ''CI-CH''"
    by (simp add: py_strip_def isspace_def)
  have strip2: "py_strip ''  OL '' = ''OL''"
    by (simp add: py_strip_def isspace_def)
  have mem: "([''CI'', ''CI-CH''], ''CI_Group'') \<in> set documented_groups"
    by (simp add: documented_groups_def)
  have in1: "py_strip '' CI-CH  '' \<in> set [''CI'', ''CI-CH'']"
    by (simp add: strip1)
  have out2: "py_strip ''  OL '' \<notin> set documented_codes"
    by (simp add: strip2 documented_codes_def documented_groups_def)
  from classify_soil_group_table
  have a: "classify_soil_group (Some '' CI-CH  '') = ''CI_Group''"
    using mem in1 by blast
  from classify_soil_group_table
  have b: "classify_soil_group (Some ''  OL '') = py_strip ''  OL ''"
    using out2 by blast
  from mem in1 a out2 b show ?thesis
    by (simp only: strip2 simp_thms)
qed

text \<open>
  Claim C10. \<^verbatim>\<open>classify_soil_group\<close> is idempotent: every value it returns, fed back
  as a code, is returned unchanged. This covers the missing code as well.
\<close>

theorem classify_soil_group_idempotent:
  "classify_soil_group (Some (classify_soil_group legend)) = classify_soil_group legend"
proof (cases legend)
  case None
  then show ?thesis
    using classify_label_fixed [of "''Unknown''"] by (simp add: classify_soil_group_def)
next
  case (Some s)
  from classify_cases [of s] show ?thesis
  proof
    assume pass: "classify_soil_group (Some s) = py_strip s"
    have "classify_soil_group (Some (py_strip s)) = classify_soil_group (Some s)"
      by (simp add: classify_soil_group_def py_strip_idem)
    with pass Some show ?thesis by simp
  next
    assume "classify_soil_group (Some s) \<in> set (map snd documented_groups)"
    then have "classify_soil_group (Some (classify_soil_group (Some s))) = classify_soil_group (Some s)"
      by (intro classify_label_fixed) simp
    with Some show ?thesis by simp
  qed
qed

subsection \<open>Unit codes as text\<close>

lemma digit_nth_mem: "d < 10 \<Longrightarrow> ''0123456789'' ! d \<in> set digit_chars"
  unfolding digit_chars_def by (rule nth_mem) simp

lemma digit_nth_inj:
  assumes "a < 10" "b < 10" "''0123456789'' ! a = ''0123456789'' ! b"
  shows "a = b"
proof -
  have "distinct ''0123456789''" by simp
  with assms show ?thesis by (simp add: nth_eq_iff_index_eq)
qed

lemma str_nat_nonempty: "str_nat n \<noteq> []"
  by (subst str_nat.simps) simp

lemma str_nat_digits: "set (str_nat n) \<subseteq> set digit_chars"
proof (induction n rule: str_nat.induct)
  case (1 n)
  show ?case
  proof (cases "n < 10")
    case True
    then show ?thesis
      using digit_nth_mem [of n] by (subst str_nat.simps) simp
  next
    case False
    then have "set (str_nat (n div 10)) \<subseteq> set digit_chars"
      using 1 by simp
    moreover have "''0123456789'' ! (n mod 10) \<in> set digit_chars"
      by (rule digit_nth_mem) simp
    ultimately show ?thesis
      using False by (subst str_nat.simps) simp
  qed
qed

lemma str_nat_inj: "str_nat n = str_nat m \<Longrightarrow> n = m"
proof (induction n arbitrary: m rule: str_nat.induct)
  case (1 n)
  have ln: "last (str_nat n) = ''0123456789'' ! (n mod 10)"
    by (subst str_nat.simps) simp
  have lm: "last (str_nat m) = ''0123456789'' ! (m mod 10)"
    by (subst str_nat.simps) simp
  have bn: "butlast (str_nat n) = (if n < 10 then [] else str_nat (n div 10))"
    by (subst str_nat.simps) simp
  have bm: "butlast (str_nat m) = (if m < 10 then [] else str_nat (m div 10))"
    by (subst str_nat.simps) simp
  from "1.prems" ln lm have "''0123456789'' ! (n mod 10) = ''0123456789'' ! (m mod 10)"
    by simp
  then have md: "n mod 10 = m mod 10"
    by (intro digit_nth_inj) simp_all
  from "1.prems" bn bm
  have bb: "(if n < 10 then [] else str_nat (n div 10)) = (if m < 10 then [] else str_nat (m div 10))"
    by simp
  show ?case
  proof (cases "n < 10")
    case True
    with bb have "m < 10"
      using str_nat_nonempty [of "m div 10"] by (auto split: if_splits)
    with True md show ?thesis by simp
  next
    case False
    with bb have m10: "\<not> m < 10"
      using str_nat_nonempty [of "n div 10"] by (auto split: if_splits)
    with False bb have "str_nat (n div 10) = str_nat (m div 10)" by simp
    with False "1.IH" have "n div 10 = m div 10" by simp
    with md show ?thesis
      by (metis div_mult_mod_eq)
  qed
qed

lemma origin_prefix_mem: "origin_prefix origin \<in> set unit_prefixes"
  by (simp add: origin_prefix_def unit_prefixes_def)

lemma prefix_no_digit: "p \<in> set unit_prefixes \<Longrightarrow> set p \<inter> set digit_chars = {}"
  by (auto simp: unit_prefixes_def digit_chars_def)

lemma takeWhile_code:
  assumes "set p \<inter> set digit_chars = {}"
  shows "takeWhile (\<lambda>c. c \<notin> set digit_chars) (p @ str_nat n) = p"
proof -
  obtain c cs where cs: "str_nat n = c # cs"
    using str_nat_nonempty [of n] by (cases "str_nat n") auto
  with str_nat_digits [of n] have "c \<in> set digit_chars" by auto
  with assms cs show ?thesis
    by (auto simp: takeWhile_append)
qed

lemma unit_code_inj:
  assumes "set p \<inter> set digit_chars = {}" "set q \<inter> set digit_chars = {}"
    and "p @ str_nat n = q @ str_nat m"
  shows "p = q \<and> n = m"
proof -
  from assms have "p = q"
    using takeWhile_code [of p n] takeWhile_code [of q m] by simp
  with assms(3) show ?thesis
    by (simp add: str_nat_inj)
qed

lemma origin_prefix_named:
  "origin_prefix a = origin_prefix b \<Longrightarrow> origin_prefix a \<noteq> ''U'' \<Longrightarrow> a = b"
  by (simp add: origin_prefix_def split: if_splits)

subsection \<open>The loop over the sorted group keys\<close>

lemma assign_loop_snoc:
  "assign_loop (keys @ [k]) = assign_step (assign_loop keys) k"
  by (simp add: assign_loop_def)

lemma assign_loop_counter:
  "(case origin_counters (assign_loop keys) origin of None \<Rightarrow> 0 | Some c \<Rightarrow> c) =
   length (filter (\<lambda>k. origin_segment k = origin) keys)"
proof (induction keys arbitrary: origin rule: rev_induct)
  case Nil
  show ?case by (simp add: assign_loop_def)
next
  case (snoc k keys)
  then show ?case
    by (simp add: assign_loop_snoc assign_step_def Let_def)
qed

lemma assign_loop_dom: "dom (unit_assignments (assign_loop keys)) = set keys"
proof (induction keys rule: rev_induct)
  case Nil
  show ?case by (simp add: assign_loop_def)
next
  case (snoc k keys)
  have "dom (unit_assignments (assign_step (assign_loop keys) k)) =
        insert k (dom (unit_assignments (assign_loop keys)))"
    unfolding assign_step_def Let_def by (simp del: fun_upd_apply)
  with snoc show ?case
    by (simp add: assign_loop_snoc)
qed

lemma rank_in_last:
  "k \<notin> set keys \<Longrightarrow>
   rank_in (keys @ [k]) k = Suc (length (filter (\<lambda>k'. origin_segment k' = origin_segment k) keys))"
  by (simp add: rank_in_def takeWhile_append)

lemma rank_in_front:
  "k \<in> set keys \<Longrightarrow> rank_in (keys @ tl_keys) k = rank_in keys k"
  by (auto simp: rank_in_def takeWhile_append)

lemma assign_loop_code:
  "distinct keys \<Longrightarrow> k \<in> set keys \<Longrightarrow>
   unit_assignments (assign_loop keys) k =
     Some (origin_prefix (origin_segment k) @ str_nat (rank_in keys k))"
proof (induction keys rule: rev_induct)
  case Nil
  then show ?case by simp
next
  case (snoc x keys)
  show ?case
  proof (cases "k = x")
    case True
    with snoc.prems have "x \<notin> set keys" by simp
    then show ?thesis
      using True assign_loop_counter [of keys "origin_segment x"]
      by (simp add: assign_loop_snoc assign_step_def Let_def rank_in_last)
  next
    case False
    with snoc.prems have mem: "k \<in> set keys" and "distinct keys" by simp_all
    with snoc.IH have "unit_assignments (assign_loop keys) k =
        Some (origin_prefix (origin_segment k) @ str_nat (rank_in keys k))" by simp
    with False mem show ?thesis
      by (simp add: assign_loop_snoc assign_step_def Let_def rank_in_front)
  qed
qed

lemma rank_in_positive: "0 < rank_in keys k"
  by (simp add: rank_in_def)

lemma takeWhile_before:
  assumes "k \<in> set (takeWhile (\<lambda>x. x \<noteq> k') keys)"
  shows "\<exists>rest. takeWhile (\<lambda>x. x \<noteq> k') keys = takeWhile (\<lambda>x. x \<noteq> k) keys @ k # rest"
using assms proof (induction keys)
  case Nil
  then show ?case by simp
next
  case (Cons a keys)
  then show ?case by (cases "a = k") (auto split: if_splits)
qed

lemma rank_in_mono:
  assumes "k \<in> set (takeWhile (\<lambda>x. x \<noteq> k') keys)"
    and "origin_segment k = origin_segment k'"
  shows "rank_in keys k < rank_in keys k'"
proof -
  from takeWhile_before [OF assms(1)] obtain rest
    where "takeWhile (\<lambda>x. x \<noteq> k') keys = takeWhile (\<lambda>x. x \<noteq> k) keys @ k # rest" ..
  with assms(2) show ?thesis
    by (simp add: rank_in_def)
qed

lemma before_or_after:
  assumes "k \<in> set keys" "k' \<in> set keys" "k \<noteq> k'"
  shows "k \<in> set (takeWhile (\<lambda>x. x \<noteq> k') keys) \<or> k' \<in> set (takeWhile (\<lambda>x. x \<noteq> k) keys)"
using assms by (induction keys) auto

lemma rank_in_distinct:
  assumes "k \<in> set keys" "k' \<in> set keys" "k \<noteq> k'"
    and "origin_segment k = origin_segment k'"
  shows "rank_in keys k \<noteq> rank_in keys k'"
  using before_or_after [OF assms(1-3)] rank_in_mono [of k k' keys] rank_in_mono [of k' k keys] assms(4)
  by auto

subsection \<open>The order of the group keys\<close>

lemma groupby_mean_keys: "map fst (groupby_mean kvs) = sort (remdups (map fst kvs))"
  by (simp add: groupby_mean_def comp_def)


lemma group_depths_set: "set (group_depths ls) = set (groupby_mean (map (\<lambda>l. (group_key_of l, avg_depth l)) ls))"
  by (simp add: group_depths_def sort_values_def)

lemma group_depths_keys_set: "set (map fst (group_depths ls)) = group_key_of ` set ls"
proof -
  have "set (map fst (group_depths ls)) = fst ` set (groupby_mean (map (\<lambda>l. (group_key_of l, avg_depth l)) ls))"
    by (simp add: group_depths_set)
  also have "\<dots> = set (map fst (groupby_mean (map (\<lambda>l. (group_key_of l, avg_depth l)) ls)))"
    by simp
  also have "\<dots> = group_key_of ` set ls"
    by (simp only: groupby_mean_keys) (auto simp: comp_def)
  finally show ?thesis .
qed

lemma group_depths_keys_distinct: "distinct (map fst (group_depths ls))"
proof -
  let ?g = "groupby_mean (map (\<lambda>l. (group_key_of l, avg_depth l)) ls)"
  have "distinct (map fst ?g)"
    by (simp only: groupby_mean_keys) simp
  then have "distinct ?g \<and> inj_on fst (set ?g)"
    by (simp add: distinct_map)
  then have "distinct (sort_key snd ?g) \<and> inj_on fst (set (sort_key snd ?g))"
    by simp
  then show ?thesis
    by (simp add: group_depths_def sort_values_def distinct_map)
qed





subsection \<open>Unit assigner\<close>

text \<open>The definitions that evaluate the unit assigner on a concrete frame.\<close>

lemmas eval_assign =
  assign_geological_units_def group_depths_def sort_values_def groupby_mean_def mean_def
  group_key_of_def avg_depth_def class_group_def classify_soil_group_def py_strip_def isspace_def
  fillna_def assign_loop_def assign_step_def origin_segment_def origin_prefix_def str_nat.simps
  layer.defs unit_layer.defs Let_def example_layer_def

lemma unit_row_facts:
  assumes "l \<in> set (rows (assign_geological_units df))"
  shows "GroupKey l = group_key_of l"
    and "AvgDepth l = (TOP l + BASE l) / 2"
    and "Unit l = unit_assignments (assign_loop (map fst (group_depths (rows df)))) (GroupKey l)"
    and "GroupKey l \<in> set (map fst (group_depths (rows df)))"
proof -
  from assms obtain l0 where l0: "l0 \<in> set (rows df)"
    and l: "l = layer.extend l0 (unit_layer.fields (avg_depth l0) (class_group l0) (group_key_of l0)
                 (unit_assignments (assign_loop (map fst (group_depths (rows df)))) (group_key_of l0)))"
    by (auto simp: assign_geological_units_def Let_def)
  have same: "group_key_of l = group_key_of l0"
    by (simp add: l group_key_of_def class_group_def layer.defs unit_layer.defs)
  show "GroupKey l = group_key_of l"
    by (simp add: same) (simp add: l layer.defs unit_layer.defs)
  show "AvgDepth l = (TOP l + BASE l) / 2"
    by (simp add: l avg_depth_def layer.defs unit_layer.defs)
  show "Unit l = unit_assignments (assign_loop (map fst (group_depths (rows df)))) (GroupKey l)"
    by (simp add: l layer.defs unit_layer.defs)
  have "GroupKey l = group_key_of l0"
    by (simp add: l layer.defs unit_layer.defs)
  with l0 show "GroupKey l \<in> set (map fst (group_depths (rows df)))"
    by (simp only: group_depths_keys_set) simp
qed

lemma unit_row_code:
  assumes "l \<in> set (rows (assign_geological_units df))"
  shows "Unit l = Some (origin_prefix (origin_segment (GroupKey l)) @
                        str_nat (rank_in (map fst (group_depths (rows df))) (GroupKey l)))"
  using unit_row_facts(3,4) [OF assms] assign_loop_code [OF group_depths_keys_distinct]
  by simp

lemma documented_prefix_eq: "documented_prefix origin = origin_prefix origin"
  by (simp add: documented_prefix_def origin_prefix_def)

lemma origin_segment_plain:
  "CHR ''_'' \<notin> set origin \<Longrightarrow> origin_segment (origin @ ''_'' @ rest) = origin"
  by (simp add: origin_segment_def takeWhile_append)

text \<open>
  Claim C8. Every row gets a unit code whose prefix is the documented prefix of the origin
  segment of the row's group key (Fill gives F, Residual R, Alluvium AL, Colluvium CO,
  anything else U), followed by a positive number. The group key is the origin, or
  \<open>Unknown\<close> when the origin is missing, then an underscore and the classification group;
  its origin segment is that origin whenever the origin has no underscore of its own, and a
  missing origin gets the prefix U.
\<close>

theorem unit_code_prefix_from_origin:
  "\<forall>l\<in>set (rows (assign_geological_units df)).
     (\<exists>n>0. Unit l = Some (documented_prefix (origin_segment (GroupKey l)) @ str_nat n)) \<and>
     GroupKey l = fillna ''Unknown'' (Origin1 l) @ ''_'' @ classify_soil_group (Legend l) \<and>
     (CHR ''_'' \<notin> set (fillna ''Unknown'' (Origin1 l)) \<longrightarrow>
        origin_segment (GroupKey l) = fillna ''Unknown'' (Origin1 l)) \<and>
     (Origin1 l = None \<longrightarrow> documented_prefix (origin_segment (GroupKey l)) = ''U'')"
proof
  fix l
  assume l: "l \<in> set (rows (assign_geological_units df))"
  have key: "GroupKey l = fillna ''Unknown'' (Origin1 l) @ ''_'' @ classify_soil_group (Legend l)"
    using unit_row_facts(1) [OF l] by (simp add: group_key_of_def class_group_def)
  have code: "\<exists>n>0. Unit l = Some (documented_prefix (origin_segment (GroupKey l)) @ str_nat n)"
    using unit_row_code [OF l] rank_in_positive by (auto simp: documented_prefix_eq)
  have plain: "CHR ''_'' \<notin> set (fillna ''Unknown'' (Origin1 l)) \<longrightarrow>
        origin_segment (GroupKey l) = fillna ''Unknown'' (Origin1 l)"
    using origin_segment_plain [of "fillna ''Unknown'' (Origin1 l)" "classify_soil_group (Legend l)"]
    by (simp only: key) simp
  have missing: "Origin1 l = None \<longrightarrow> documented_prefix (origin_segment (GroupKey l)) = ''U''"
  proof
    assume "Origin1 l = None"
    then have "GroupKey l = ''Unknown'' @ ''_'' @ classify_soil_group (Legend l)"
      using key by (simp add: fillna_def)
    then have "origin_segment (GroupKey l) = ''Unknown''"
      by (simp add: origin_segment_def)
    then show "documented_prefix (origin_segment (GroupKey l)) = ''U''"
      by (simp add: documented_prefix_def)
  qed
  from code key plain missing
  show "(\<exists>n>0. Unit l = Some (documented_prefix (origin_segment (GroupKey l)) @ str_nat n)) \<and>
     GroupKey l = fillna ''Unknown'' (Origin1 l) @ ''_'' @ classify_soil_group (Legend l) \<and>
     (CHR ''_'' \<notin> set (fillna ''Unknown'' (Origin1 l)) \<longrightarrow>
        origin_segment (GroupKey l) = fillna ''Unknown'' (Origin1 l)) \<and>
     (Origin1 l = None \<longrightarrow> documented_prefix (origin_segment (GroupKey l)) = ''U'')"
    by blast
qed


text \<open>The first row of the two fill layers.\<close>

theorem unit_code_prefix_from_origin_witness:
  "hd (rows (assign_geological_units two_fill_layers)) \<in> set (rows (assign_geological_units two_fill_layers)) \<and>
   CHR ''_'' \<notin> set (fillna ''Unknown'' (Origin1 (hd (rows (assign_geological_units two_fill_layers))))) \<and>
   (\<exists>n>0. Unit (hd (rows (assign_geological_units two_fill_layers))) = Some (''F'' @ str_nat n))"
proof -
  let ?l = "hd (rows (assign_geological_units two_fill_layers))"
  have mem: "?l \<in> set (rows (assign_geological_units two_fill_layers))"
    by (simp add: assign_geological_units_def two_fill_layers_def Let_def)
  have origin: "fillna ''Unknown'' (Origin1 ?l) = ''Fill''"
    by (simp add: two_fill_layers_def eval_assign)
  from unit_code_prefix_from_origin [of two_fill_layers] mem
  have code: "\<exists>n>0. Unit ?l = Some (documented_prefix (origin_segment (GroupKey ?l)) @ str_nat n)"
    and plain: "CHR ''_'' \<notin> set (fillna ''Unknown'' (Origin1 ?l)) \<longrightarrow>
                  origin_segment (GroupKey ?l) = fillna ''Unknown'' (Origin1 ?l)"
    by blast+
  from plain origin have "origin_segment (GroupKey ?l) = ''Fill''" by simp
  with code have "\<exists>n>0. Unit ?l = Some (''F'' @ str_nat n)"
    by (simp add: documented_prefix_def)
  with mem origin show ?thesis by simp
qed

text \<open>
  Claim C1, as amended. Every unit code is one of the prefixes F, R, AL, CO, U followed by a
  positive number. The number comes from a counter kept for each origin segment, not for
  each prefix: it is one more than the number of group keys with the same origin segment
  that the loop visited before. Two different group keys get different codes whenever
  they have the same origin segment or one of the prefixes F, R, AL, CO.
\<close>

theorem unit_codes_per_origin_segment:
  "\<forall>l\<in>set (rows (assign_geological_units df)). \<forall>l'\<in>set (rows (assign_geological_units df)).
     origin_prefix (origin_segment (GroupKey l)) \<in> set unit_prefixes \<and>
     0 < rank_in (map fst (group_depths (rows df))) (GroupKey l) \<and>
     Unit l = Some (origin_prefix (origin_segment (GroupKey l)) @
                    str_nat (rank_in (map fst (group_depths (rows df))) (GroupKey l))) \<and>
     (GroupKey l \<noteq> GroupKey l' \<and>
      (origin_segment (GroupKey l) = origin_segment (GroupKey l') \<or>
       origin_prefix (origin_segment (GroupKey l)) \<noteq> ''U'')
      \<longrightarrow> Unit l \<noteq> Unit l')"
proof (intro ballI conjI impI)
  fix l l'
  assume l: "l \<in> set (rows (assign_geological_units df))"
    and l': "l' \<in> set (rows (assign_geological_units df))"
  let ?keys = "map fst (group_depths (rows df))"
  let ?p = "origin_prefix (origin_segment (GroupKey l))"
  let ?p' = "origin_prefix (origin_segment (GroupKey l'))"
  show "?p \<in> set unit_prefixes"
    by (rule origin_prefix_mem)
  show "0 < rank_in ?keys (GroupKey l)"
    by (rule rank_in_positive)
  show code: "Unit l = Some (?p @ str_nat (rank_in ?keys (GroupKey l)))"
    by (rule unit_row_code [OF l])
  assume h: "GroupKey l \<noteq> GroupKey l' \<and>
      (origin_segment (GroupKey l) = origin_segment (GroupKey l') \<or> ?p \<noteq> ''U'')"
  show "Unit l \<noteq> Unit l'"
  proof
    assume "Unit l = Unit l'"
    with code unit_row_code [OF l']
    have "?p @ str_nat (rank_in ?keys (GroupKey l)) = ?p' @ str_nat (rank_in ?keys (GroupKey l'))"
      by simp
    then have same: "?p = ?p' \<and> rank_in ?keys (GroupKey l) = rank_in ?keys (GroupKey l')"
      by (intro unit_code_inj prefix_no_digit origin_prefix_mem)
    with h have "origin_segment (GroupKey l) = origin_segment (GroupKey l')"
      using origin_prefix_named by blast
    with h have "rank_in ?keys (GroupKey l) \<noteq> rank_in ?keys (GroupKey l')"
      using unit_row_facts(4) [OF l] unit_row_facts(4) [OF l']
      by (intro rank_in_distinct) simp_all
    with same show False by simp
  qed
qed

text \<open>The two rows of the two fill layers: one origin, two keys, two codes.\<close>

theorem unit_codes_per_origin_segment_witness:
  "hd (rows (assign_geological_units two_fill_layers)) \<in> set (rows (assign_geological_units two_fill_layers)) \<and>
   last (rows (assign_geological_units two_fill_layers)) \<in> set (rows (assign_geological_units two_fill_layers)) \<and>
   GroupKey (hd (rows (assign_geological_units two_fill_layers))) \<noteq>
     GroupKey (last (rows (assign_geological_units two_fill_layers))) \<and>
   origin_segment (GroupKey (hd (rows (assign_geological_units two_fill_layers)))) =
     origin_segment (GroupKey (last (rows (assign_geological_units two_fill_layers)))) \<and>
   Unit (hd (rows (assign_geological_units two_fill_layers))) \<noteq>
     Unit (last (rows (assign_geological_units two_fill_layers)))"
proof -
  let ?l = "hd (rows (assign_geological_units two_fill_layers))"
  let ?l' = "last (rows (assign_geological_units two_fill_layers))"
  have mem: "?l \<in> set (rows (assign_geological_units two_fill_layers))"
    and mem': "?l' \<in> set (rows (assign_geological_units two_fill_layers))"
    by (simp_all add: assign_geological_units_def two_fill_layers_def Let_def)
  have k: "GroupKey ?l = ''Fill_Sand_Group''" and k': "GroupKey ?l' = ''Fill_CH_Group''"
    by (simp_all add: two_fill_layers_def eval_assign)
  have differ: "GroupKey ?l \<noteq> GroupKey ?l'"
    by (simp add: k k')
  have seg: "origin_segment (GroupKey ?l) = origin_segment (GroupKey ?l')"
    by (simp add: k k' origin_segment_def)
  from unit_codes_per_origin_segment [of two_fill_layers] mem mem' differ seg
  have "Unit ?l \<noteq> Unit ?l'" by blast
  with mem mem' differ seg show ?thesis by blast
qed

text \<open>
  Claim C1 as stated fails: the origins Marine and Estuarine both have the prefix U and
  each has a counter of its own, so the two group keys both get the code U1.
\<close>

theorem unit_codes_shared_by_two_keys:
  "map (\<lambda>l. (GroupKey l, Unit l)) (rows (assign_geological_units two_other_origins)) =
     [(''Marine_CH_Group'', Some ''U1''), (''Estuarine_CH_Group'', Some ''U1'')]"
  by (simp add: two_other_origins_def eval_assign)






subsection \<open>Description synthesizer\<close>

text \<open>The definitions that evaluate a description on a concrete frame.\<close>

lemmas eval_description =
  generate_unit_description_def unit_origin_def unit_primary_material_def class_str_def
  plasticity_str_def plasticity_parts_def plasticity_joiner_parts_def plasticity_min_parts_def
  color_str_def first_present_def mode_or_def mode_values_def py_upper_def py_lower_def
  py_split_def py_strip_def isspace_def example_layer_def Let_def

text \<open>
  Claim C9. On a frame without rows the summary table has no rows, and the description and
  the extent statement are both the empty string; no step of the three functions can
  fail there.
\<close>

theorem empty_input_gives_empty_output:
  "create_subsurface_summary_table \<lparr>columns = cols, rows = []\<rparr> = [] \<and>
   generate_unit_description \<lparr>columns = cols', rows = []\<rparr> = '''' \<and>
   generate_extent_statement \<lparr>columns = cols'', rows = []\<rparr> = ''''"
  by (simp add: create_subsurface_summary_table_def assign_geological_units_def py_sorted_def
        generate_unit_description_def generate_extent_statement_def Let_def)


lemma set_unique: "set (unique xs) = set xs"
  by (induction xs rule: unique.induct) auto

lemma mode_values_set: "set (mode_values cells) = most_frequent (dropna cells)"
  by (auto simp: mode_values_def most_frequent_def set_unique list_all_iff Let_def)

lemma most_frequent_nonempty:
  assumes "vals \<noteq> []"
  shows "most_frequent vals \<noteq> {}"
proof -
  let ?C = "count_list vals ` set vals"
  have "finite ?C" and "?C \<noteq> {}" using assms by simp_all
  then have "Max ?C \<in> ?C" by (rule Max_in)
  then obtain v where v: "v \<in> set vals" "count_list vals v = Max ?C" by auto
  have "\<forall>w\<in>set vals. count_list vals w \<le> count_list vals v"
    using v(2) by simp
  with v(1) have "v \<in> most_frequent vals"
    by (simp add: most_frequent_def)
  then show ?thesis by auto
qed

lemma hd_sorted_Min:
  assumes "xs \<noteq> []" "sorted xs"
  shows "hd xs = Min (set xs)"
proof (cases xs)
  case Nil
  with assms show ?thesis by simp
next
  case (Cons x ys)
  with assms(2) have "\<forall>y\<in>set xs. x \<le> y" by auto
  then have "Min (set xs) = x"
    using Cons by (intro Min_eqI) auto
  with Cons show ?thesis by simp
qed

lemma mode_or_least:
  "mode_or fallback cells =
     (if dropna cells = [] then fallback else Min (most_frequent (dropna cells)))"
proof (cases "dropna cells = []")
  case True
  then show ?thesis
    by (simp add: mode_or_def mode_values_def Let_def)
next
  case False
  then have ne: "mode_values cells \<noteq> []"
    using most_frequent_nonempty [of "dropna cells"] mode_values_set [of cells] by auto
  have "sorted (mode_values cells)"
    by (simp add: mode_values_def Let_def)
  with ne have "hd (mode_values cells) = Min (most_frequent (dropna cells))"
    using hd_sorted_Min [of "mode_values cells"] by (simp add: mode_values_set)
  with ne False show ?thesis
    by (cases "mode_values cells") (simp_all add: mode_or_def)
qed

text \<open>
  Claim C6, as amended. The origin is the least, in string order, of the most frequent
  present values of the origin column, and \<open>Unknown\<close> when no value is present. The
  primary material is the upper-cased least of the most frequent present values of the
  material column, and \<open>SOIL\<close> when the column is absent or holds no value.
\<close>

theorem origin_and_material_least_mode:
  "(dropna (map Origin1 (rows unit_df)) = [] \<longrightarrow> unit_origin unit_df = ''Unknown'') \<and>
   (dropna (map Origin1 (rows unit_df)) \<noteq> [] \<longrightarrow>
      unit_origin unit_df = Min (most_frequent (dropna (map Origin1 (rows unit_df))))) \<and>
   (''PrimaryName'' \<notin> set (columns unit_df) \<or> dropna (map PrimaryName (rows unit_df)) = [] \<longrightarrow>
      unit_primary_material unit_df = ''SOIL'') \<and>
   (''PrimaryName'' \<in> set (columns unit_df) \<and> dropna (map PrimaryName (rows unit_df)) \<noteq> [] \<longrightarrow>
      unit_primary_material unit_df =
        py_upper (Min (most_frequent (dropna (map PrimaryName (rows unit_df))))))"
proof (intro conjI impI)
  assume "dropna (map Origin1 (rows unit_df)) = []"
  then show "unit_origin unit_df = ''Unknown''"
    by (simp add: unit_origin_def mode_or_least)
next
  assume "dropna (map Origin1 (rows unit_df)) \<noteq> []"
  then show "unit_origin unit_df = Min (most_frequent (dropna (map Origin1 (rows unit_df))))"
    by (simp add: unit_origin_def mode_or_least)
next
  have soil: "py_upper ''SOIL'' = ''SOIL''"
    by (simp add: py_upper_def)
  assume "''PrimaryName'' \<notin> set (columns unit_df) \<or> dropna (map PrimaryName (rows unit_df)) = []"
  then show "unit_primary_material unit_df = ''SOIL''"
    by (auto simp: unit_primary_material_def mode_or_least soil)
next
  assume "''PrimaryName'' \<in> set (columns unit_df) \<and> dropna (map PrimaryName (rows unit_df)) \<noteq> []"
  then show "unit_primary_material unit_df =
        py_upper (Min (most_frequent (dropna (map PrimaryName (rows unit_df)))))"
    by (simp add: unit_primary_material_def mode_or_least)
qed

text \<open>A frame without origin and material, and the frame with tied values.\<close>

theorem origin_and_material_least_mode_witness:
  "dropna (map Origin1 (rows no_origin)) = [] \<and> unit_origin no_origin = ''Unknown'' \<and>
   ''PrimaryName'' \<notin> set (columns no_origin) \<and> unit_primary_material no_origin = ''SOIL'' \<and>
   dropna (map Origin1 (rows tied_modes)) \<noteq> [] \<and>
   unit_origin tied_modes = Min (most_frequent [''Residual'', ''Fill'']) \<and>
   ''PrimaryName'' \<in> set (columns tied_modes) \<and> dropna (map PrimaryName (rows tied_modes)) \<noteq> [] \<and>
   unit_primary_material tied_modes = py_upper (Min (most_frequent [''Sand'', ''Clay'']))"
proof -
  have o0: "dropna (map Origin1 (rows no_origin)) = []"
    and c0: "''PrimaryName'' \<notin> set (columns no_origin)"
    by (simp_all add: no_origin_def example_layer_def)
  have o1: "dropna (map Origin1 (rows tied_modes)) = [''Residual'', ''Fill'']"
    and p1: "dropna (map PrimaryName (rows tied_modes)) = [''Sand'', ''Clay'']"
    and c1: "''PrimaryName'' \<in> set (columns tied_modes)"
    by (simp_all add: tied_modes_def example_layer_def)
  from origin_and_material_least_mode [of no_origin] o0 c0
  have a: "unit_origin no_origin = ''Unknown''" and b: "unit_primary_material no_origin = ''SOIL''"
    by blast+
  from origin_and_material_least_mode [of tied_modes] o1 p1 c1
  have c: "unit_origin tied_modes = Min (most_frequent [''Residual'', ''Fill''])"
    and d: "unit_primary_material tied_modes = py_upper (Min (most_frequent [''Sand'', ''Clay'']))"
    by simp_all
  from o0 c0 a b o1 p1 c1 c d show ?thesis by simp
qed

text \<open>
  Claim C6 as stated fails: with two values tied, the value met first is passed over for
  the smaller one, in the origin column and in the material column.
\<close>

theorem first_encountered_value_not_chosen:
  "dropna (map Origin1 (rows tied_modes)) = [''Residual'', ''Fill''] \<and>
   unit_origin tied_modes = ''Fill'' \<and>
   dropna (map PrimaryName (rows tied_modes)) = [''Sand'', ''Clay''] \<and>
   unit_primary_material tied_modes = ''CLAY''"
  by (simp add: tied_modes_def eval_description)

subsection \<open>Summary table builder\<close>










subsection \<open>Extent synthesizer\<close>



















end
